theory Spec2Isabelle
  imports Main "HOL-Library.Sublist"
begin

section \<open>JavaScript values as the routes see them\<close>

text \<open>
  Every payload the routes read (a provider's JSON answer, a datastore row) and every
  object literal they build (an inserted row, a JSON envelope) is a JavaScript value.
  \<open>JUndefined\<close> is the value of a property that is not there. Numbers are abstracted to
  integers: the routes only compare them with \<open>0\<close> and test their truthiness.
\<close>

datatype json =
    JUndefined
  | JNull
  | JBool bool
  | JNum int
  | JStr string
  | JArr "json list"
  | JObj "(string \<times> json) list"

text \<open>Truthiness: what \<open>!x\<close>, \<open>x || y\<close> and \<open>if (x)\<close> test.\<close>

fun truthy :: "json \<Rightarrow> bool" where
  "truthy JUndefined = False"
| "truthy JNull = False"
| "truthy (JBool b) = b"
| "truthy (JNum n) = (n \<noteq> 0)"
| "truthy (JStr s) = (s \<noteq> [])"
| "truthy (JArr xs) = True"
| "truthy (JObj kvs) = True"

text \<open>\<open>a || b\<close>.\<close>

definition or_js :: "json \<Rightarrow> json \<Rightarrow> json" where
  "or_js a b = (if truthy a then a else b)"

definition nullish :: "json \<Rightarrow> bool" where
  "nullish x = (x = JNull \<or> x = JUndefined)"

text \<open>
  \<open>x.k\<close> for a value \<open>x\<close> that is neither \<open>null\<close> nor \<open>undefined\<close>. Of several equal
  keys of a parsed object the last one counts. None of the property names the routes
  read is a built-in property of a string, a number, a boolean or an array.
\<close>

fun field :: "json \<Rightarrow> string \<Rightarrow> json" where
  "field (JObj kvs) k = (case map_of (rev kvs) k of Some v \<Rightarrow> v | None \<Rightarrow> JUndefined)"
| "field x k = JUndefined"

text \<open>\<open>x.k\<close> in general: a TypeError (here \<open>None\<close>) on \<open>null\<close> and \<open>undefined\<close>.\<close>

definition get_prop :: "json \<Rightarrow> string \<Rightarrow> json option" where
  "get_prop x k = (if nullish x then None else Some (field x k))"

text \<open>\<open>x?.k\<close>.\<close>

definition opt_field :: "json \<Rightarrow> string \<Rightarrow> json" where
  "opt_field x k = (if nullish x then JUndefined else field x k)"

section \<open>Video identifier extraction (yt/route.ts, extractVideoId)\<close>

text \<open>The character class \<open>[a-zA-Z0-9_-]\<close>.\<close>

definition idchar :: "char \<Rightarrow> bool" where
  "idchar c = (c \<in> set ''abcdefghijklmnopqrstuvwxyzABCDEFGHIJKLMNOPQRSTUVWXYZ0123456789_-'')"

text \<open>The alternatives of the non-capturing group of the first pattern, in its order.\<close>

definition url_shapes :: "string list" where
  "url_shapes = [''youtube.com/watch?v='', ''youtu.be/'', ''youtube.com/embed/'',
     ''youtube.com/v/'', ''youtube.com/shorts/'']"

text \<open>
  One alternative followed by \<open>([a-zA-Z0-9_-]{11})\<close>, tried at the start of \<open>s\<close>; the
  result is the capture group.
\<close>

definition match_here :: "string \<Rightarrow> string \<Rightarrow> string option" where
  "match_here p s =
     (if prefix p s \<and> length (take 11 (drop (length p) s)) = 11
         \<and> list_all idchar (take 11 (drop (length p) s))
      then Some (take 11 (drop (length p) s)) else None)"

fun first_some :: "('a \<Rightarrow> 'b option) \<Rightarrow> 'a list \<Rightarrow> 'b option" where
  "first_some f [] = None"
| "first_some f (x # xs) = (case f x of Some y \<Rightarrow> Some y | None \<Rightarrow> first_some f xs)"

text \<open>The first pattern at one position: the alternatives in their order.\<close>

definition match_shapes :: "string \<Rightarrow> string option" where
  "match_shapes s = first_some (\<lambda>p. match_here p s) url_shapes"

text \<open>
  The first pattern is not anchored: \<open>String.prototype.match\<close> tries it at every position
  from the left and stops at the first one where it matches.
\<close>

fun search_shapes :: "string \<Rightarrow> string option" where
  "search_shapes [] = match_shapes []"
| "search_shapes (c # cs) =
     (case match_shapes (c # cs) of Some v \<Rightarrow> Some v | None \<Rightarrow> search_shapes cs)"

text \<open>The second pattern, \<open>^([a-zA-Z0-9_-]{11})$\<close>: the whole input is an identifier.\<close>

definition bare_id :: "string \<Rightarrow> string option" where
  "bare_id url = (if length url = 11 \<and> list_all idchar url then Some url else None)"

definition patterns :: "(string \<Rightarrow> string option) list" where
  "patterns = [search_shapes, bare_id]"

definition extractVideoId :: "string \<Rightarrow> string option" where
  "extractVideoId url = first_some (\<lambda>pattern. pattern url) patterns"

section \<open>The outside world\<close>

text \<open>
  The routes talk to remote services: the provider APIs and media hosts through \<open>fetch\<close>,
  the storage bucket and the datastore through the hosted client. Each of them is a
  parameter of the model: a \<open>world\<close> says how every call a route can make is answered.
  A call either throws (the promise rejects) with a message, or returns.
\<close>

datatype 'a outcome = Throws string | Returns 'a

type_synonym buffer = string

text \<open>
  What the routes read of a \<open>Response\<close>: \<open>ok\<close>, \<open>status\<close>, \<open>json()\<close> and
  \<open>arrayBuffer()\<close>; the two body readers can reject.
\<close>

record http_response =
  ok :: bool
  status :: nat
  json_body :: "json outcome"
  array_buffer :: "buffer outcome"

text \<open>
  The calls of \<open>fetch\<close> the routes make:
  \<^item> \<open>TikwmGet url hd ua\<close>: GET \<open>https://www.tikwm.com/api/?url=<url>\<close>, with \<open>&hd=1\<close> when
    \<open>hd\<close>, sent with the User-Agent \<open>ua\<close>;
  \<^item> \<open>CobaltPost instance body\<close>: POST of the JSON \<open>body\<close> to a relay instance;
  \<^item> \<open>OembedGet videoId\<close>: GET of the embed-info endpoint for a watch URL of \<open>videoId\<close>;
  \<^item> \<open>UrlGet url ua\<close>: GET of a resolved URL (whatever value the provider gave), with a
    User-Agent header or without one.
\<close>

datatype fetch_call =
    TikwmGet string bool string
  | CobaltPost string json
  | OembedGet string
  | UrlGet json "string option"

text \<open>
  \<open>upload bucket path contentType buffer\<close> and \<open>insert table row\<close> return the \<open>error\<close>
  of the client's answer (its message), \<open>None\<close> for \<open>error: null\<close>.
  \<open>select_single table id\<close> returns the pair \<open>(data, error)\<close> of
  \<open>.select("*").eq("id", id).single()\<close>. \<open>getPublicUrl bucket path\<close> returns the \<open>data\<close> of the
  client's answer. \<open>randomUUID\<close> is the identifier \<open>crypto.randomUUID()\<close> draws.
\<close>

record world =
  fetch :: "fetch_call \<Rightarrow> http_response outcome"
  upload :: "string \<Rightarrow> string \<Rightarrow> string \<Rightarrow> buffer \<Rightarrow> string option outcome"
  insert_row :: "string \<Rightarrow> json \<Rightarrow> string option outcome"
  select_single :: "string \<Rightarrow> string \<Rightarrow> (json \<times> json) outcome"
  getPublicUrl :: "string \<Rightarrow> json \<Rightarrow> json outcome"
  randomUUID :: string

text \<open>What a route does to the world, in the order it does it.\<close>

datatype event =
    Fetch fetch_call
  | Upload string string string buffer
  | Insert string json
  | Select string string
  | IncrementStat string
  | LogApiRequest string string string nat string
  | ConsoleError string

text \<open>
  A step of a route: it throws or returns a value, and leaves the events it caused.
\<close>

type_synonym 'a step = "'a outcome \<times> event list"

definition ret :: "'a \<Rightarrow> 'a step" where
  "ret x = (Returns x, [])"

definition throw :: "string \<Rightarrow> 'a step" where
  "throw m = (Throws m, [])"

definition emit :: "event \<Rightarrow> unit step" where
  "emit e = (Returns (), [e])"

text \<open>Sequencing: a thrown error skips the rest; the events accumulate.\<close>

definition seq :: "'a step \<Rightarrow> ('a \<Rightarrow> 'b step) \<Rightarrow> 'b step" where
  "seq m f =
     (case m of
        (Throws e, evs) \<Rightarrow> (Throws e, evs)
      | (Returns x, evs) \<Rightarrow> (case f x of (r, evs') \<Rightarrow> (r, evs @ evs')))"

text \<open>\<open>await fetch(...)\<close>, \<open>await response.json()\<close> and the client's calls, as steps.\<close>

definition do_fetch :: "world \<Rightarrow> fetch_call \<Rightarrow> http_response step" where
  "do_fetch w c = (fetch w c, [Fetch c])"

definition lift :: "'a outcome \<Rightarrow> 'a step" where
  "lift r = (r, [])"

definition do_upload :: "world \<Rightarrow> string \<Rightarrow> string \<Rightarrow> string \<Rightarrow> buffer \<Rightarrow> string option step" where
  "do_upload w bucket path ctype buf = (upload w bucket path ctype buf, [Upload bucket path ctype buf])"

definition do_insert :: "world \<Rightarrow> string \<Rightarrow> json \<Rightarrow> string option step" where
  "do_insert w table row = (insert_row w table row, [Insert table row])"

definition do_select :: "world \<Rightarrow> string \<Rightarrow> string \<Rightarrow> (json \<times> json) step" where
  "do_select w table ident = (select_single w table ident, [Select table ident])"

text \<open>
  \<open>try { body } catch { handler }\<close> around a step: the handler sees the message, and the
  events of the body stay.
\<close>

definition catch :: "'a step \<Rightarrow> (string \<Rightarrow> 'a step) \<Rightarrow> 'a step" where
  "catch m h =
     (case m of
        (Throws e, evs) \<Rightarrow> (case h e of (r, evs') \<Rightarrow> (r, evs @ evs'))
      | (Returns x, evs) \<Rightarrow> (Returns x, evs))"

section \<open>Requests and responses\<close>

text \<open>
  \<open>param r k\<close> is \<open>searchParams.get(k)\<close> and \<open>header r k\<close> is \<open>req.headers.get(k)\<close>;
  \<open>None\<close> is \<open>null\<close>.
\<close>

record request =
  param :: "string \<Rightarrow> string option"
  header :: "string \<Rightarrow> string option"

text \<open>\<open>!s\<close> for \<open>s: string | null\<close>.\<close>

definition absent :: "string option \<Rightarrow> bool" where
  "absent p = (case p of None \<Rightarrow> True | Some s \<Rightarrow> s = [])"

text \<open>\<open>req.headers.get("x-forwarded-for")?.split(",")[0] || "127.0.0.1"\<close>.\<close>

definition userIP_of :: "request \<Rightarrow> string" where
  "userIP_of r =
     (case header r ''x-forwarded-for'' of
        None \<Rightarrow> ''127.0.0.1''
      | Some h \<Rightarrow> (if takeWhile (\<lambda>c. c \<noteq> CHR '','') h = [] then ''127.0.0.1''
                   else takeWhile (\<lambda>c. c \<noteq> CHR '','') h))"

text \<open>\<open>req.headers.get("user-agent") || fallback\<close>.\<close>

definition realUA_of :: "request \<Rightarrow> string \<Rightarrow> string" where
  "realUA_of r fallback =
     (case header r ''user-agent'' of
        None \<Rightarrow> fallback
      | Some h \<Rightarrow> (if h = [] then fallback else h))"

text \<open>
  Modelled from the spec: \<open>prettyJson\<close> and \<open>errorRedirect\<close> of \<open>@/lib/utils\<close> are not
  among the sources. \<open>PrettyJson body code\<close> is the JSON response \<open>prettyJson(body, code)\<close>
  with that HTTP status (200 when the route passes none); \<open>ErrorRedirect code message\<close> is
  the answer of \<open>errorRedirect(req, code, message)\<close>, the redirect to the error page with
  that code and message. \<open>NextResponse body code headers\<close> is
  \<open>new NextResponse(body, {status, headers})\<close>.
\<close>

datatype response =
    PrettyJson json nat
  | NextResponse buffer nat "(string \<times> string) list"
  | ErrorRedirect nat string

fun status_of :: "response \<Rightarrow> nat" where
  "status_of (PrettyJson body code) = code"
| "status_of (NextResponse body code hs) = code"
| "status_of (ErrorRedirect code msg) = code"

text \<open>The error envelope \<open>{ status: false, error }\<close> and the success envelope.\<close>

definition error_envelope :: "string \<Rightarrow> json" where
  "error_envelope msg = JObj [(''status'', JBool False), (''error'', JStr msg)]"

definition success_envelope :: "(string \<times> json) list \<Rightarrow> json" where
  "success_envelope result = JObj [(''status'', JBool True), (''result'', JObj result)]"

text \<open>A property read that throws a TypeError on \<open>null\<close> and \<open>undefined\<close>, as a step.\<close>

definition read_prop :: "json \<Rightarrow> string \<Rightarrow> json step" where
  "read_prop x k = (case get_prop x k of None \<Rightarrow> throw ''TypeError'' | Some v \<Rightarrow> ret v)"

section \<open>The TikTok video and audio route (tiktokmp4downloader/route.ts)\<close>

record TikTokData =
  videoUrl :: json
  musicUrl :: json
  title :: json
  author :: json
  thumbnailUrl :: json

text \<open>The specialised extractor. Whatever goes wrong, the answer is \<open>null\<close>.\<close>

definition tryTikwm :: "world \<Rightarrow> string \<Rightarrow> string \<Rightarrow> TikTokData option step" where
  "tryTikwm w url ua =
     catch
       (seq (do_fetch w (TikwmGet url True ua)) (\<lambda>response.
          if \<not> ok response then ret None
          else
            seq (lift (json_body response)) (\<lambda>data.
            seq (read_prop data ''code'') (\<lambda>code.
              if code \<noteq> JNum 0 \<or> \<not> truthy (field data ''data'') then ret None
              else
                (let d = field data ''data'';
                     video = or_js (field d ''hdplay'') (field d ''play'')
                 in if \<not> truthy video then ret None
                    else ret (Some \<lparr>
                      videoUrl = video,
                      musicUrl = or_js (or_js (field d ''music'')
                                   (opt_field (field d ''music_info'') ''play'')) JNull,
                      title = or_js (field d ''title'') (JStr ''TikTok Video''),
                      author = or_js (opt_field (field d ''author'') ''nickname'') (JStr ''Unknown''),
                      thumbnailUrl = or_js (or_js (field d ''cover'') (field d ''origin_cover'')) JNull
                    \<rparr>))))))
       (\<lambda>e. ret None)"

text \<open>The relay mirrors, in the order they are tried.\<close>

definition instances :: "string list" where
  "instances = [''https://dwnld.nichind.dev'', ''https://cobalt.nohello.net'']"

text \<open>
  One turn of the loop of \<open>tryCobalt\<close>: \<open>Some u\<close> is \<open>return { downloadUrl: u }\<close>, \<open>None\<close>
  is \<open>continue\<close> or the end of the loop body.
\<close>

definition tryCobalt_instance :: "world \<Rightarrow> string \<Rightarrow> bool \<Rightarrow> string \<Rightarrow> json option step" where
  "tryCobalt_instance w url isAudio instance =
     catch
       (seq (do_fetch w (CobaltPost instance (JObj [
               (''url'', JStr url),
               (''downloadMode'', JStr (if isAudio then ''audio'' else ''auto'')),
               (''audioFormat'', JStr ''mp3''),
               (''videoQuality'', JStr ''1080'')]))) (\<lambda>response.
          if \<not> ok response then ret None
          else
            seq (lift (json_body response)) (\<lambda>data.
            seq (read_prop data ''status'') (\<lambda>st.
              if st = JStr ''error'' then ret None
              else if truthy (field data ''url'') then ret (Some (field data ''url''))
              else ret None))))
       (\<lambda>e. ret None)"

fun tryCobalt_loop :: "world \<Rightarrow> string \<Rightarrow> bool \<Rightarrow> string list \<Rightarrow> json option step" where
  "tryCobalt_loop w url isAudio [] = ret None"
| "tryCobalt_loop w url isAudio (instance # rest) =
     seq (tryCobalt_instance w url isAudio instance) (\<lambda>found.
       case found of
         Some u \<Rightarrow> ret (Some u)
       | None \<Rightarrow> tryCobalt_loop w url isAudio rest)"

definition tryCobalt :: "world \<Rightarrow> string \<Rightarrow> bool \<Rightarrow> json option step" where
  "tryCobalt w url isAudio = tryCobalt_loop w url isAudio instances"

text \<open>The thumbnail is mirrored on a best-effort basis; nothing in the block aborts.\<close>

definition mirror_thumbnail :: "world \<Rightarrow> json \<Rightarrow> string \<Rightarrow> json step" where
  "mirror_thumbnail w thumbnail ident =
     (if truthy thumbnail then
        catch
          (seq (do_fetch w (UrlGet thumbnail None)) (\<lambda>thumbResponse.
             if ok thumbResponse then
               seq (lift (array_buffer thumbResponse)) (\<lambda>thumbBuffer.
               seq (do_upload w ''tiktok-downloads'' (ident @ ''_thumb.jpg'') ''image/jpeg''
                      thumbBuffer) (\<lambda>uploaded.
               ret (JStr (ident @ ''_thumb.jpg''))))
             else ret JNull))
          (\<lambda>e. seq (emit (ConsoleError ''Failed to upload thumbnail:'')) (\<lambda>u. ret JNull))
      else ret JNull)"

text \<open>The messages of the two parameter checks.\<close>

definition tiktokvid_url_required :: string where
  "tiktokvid_url_required = ''Parameter 'tiktokvid_url' is required''"

definition type_required :: string where
  "type_required = ''Parameter 'type' is required and must be 'mp3' or 'mp4'' @ [CHR 0x27]"

definition chrome_ua :: string where
  "chrome_ua = ''Mozilla/5.0 (Windows NT 10.0; Win64; x64) AppleWebKit/537.36 (KHTML, like Gecko) Chrome/120.0.0.0 Safari/537.36''"

text \<open>
  The body of the \<open>try\<close> block, from the provider chain to the response. \<open>type\<close> is
  \<open>''mp3''\<close> or \<open>''mp4''\<close> here.
\<close>

definition tiktokmp4_try ::
  "world \<Rightarrow> string \<Rightarrow> string \<Rightarrow> bool \<Rightarrow> string \<Rightarrow> string \<Rightarrow> response step" where
  \<open>tiktokmp4_try w tiktokvid_url type autoShow userIP realUA =
     seq (tryTikwm w tiktokvid_url realUA) (\<lambda>tikwmResult.
     seq (case tikwmResult of
            Some t \<Rightarrow> ret t
          | None \<Rightarrow>
              seq (tryCobalt w tiktokvid_url (type = ''mp3'')) (\<lambda>cobaltResult.
                ret (case cobaltResult of
                       Some downloadUrl \<Rightarrow>
                         (if type = ''mp3''
                          then \<lparr>videoUrl = JNull, musicUrl = downloadUrl,
                                title = JStr ''TikTok Video'', author = JStr ''Unknown'',
                                thumbnailUrl = JNull\<rparr>
                          else \<lparr>videoUrl = downloadUrl, musicUrl = JNull,
                                title = JStr ''TikTok Video'', author = JStr ''Unknown'',
                                thumbnailUrl = JNull\<rparr>)
                     | None \<Rightarrow>
                         \<lparr>videoUrl = JNull, musicUrl = JNull,
                          title = JStr ''TikTok Video'', author = JStr ''Unknown'',
                          thumbnailUrl = JNull\<rparr>))) (\<lambda>found.
     if type = ''mp4'' \<and> \<not> truthy (videoUrl found)
       then throw ''No video URL found from any provider''
     else if type = ''mp3'' \<and> \<not> truthy (musicUrl found)
       then throw ''No music URL found from any provider''
     else
     seq (if type = ''mp4'' \<and> truthy (videoUrl found) then
            seq (do_fetch w (UrlGet (videoUrl found) (Some realUA))) (\<lambda>videoResponse.
              if \<not> ok videoResponse then throw ''Failed to fetch video file''
              else seq (lift (array_buffer videoResponse)) (\<lambda>b. ret (Some b)))
          else ret None) (\<lambda>videoBuffer.
     seq (if type = ''mp3'' \<and> truthy (musicUrl found) then
            seq (do_fetch w (UrlGet (musicUrl found) (Some realUA))) (\<lambda>musicResponse.
              if \<not> ok musicResponse then throw ''Failed to fetch music file''
              else seq (lift (array_buffer musicResponse)) (\<lambda>b. ret (Some b)))
          else ret None) (\<lambda>musicBuffer.
     (let ident = randomUUID w;
          mp4FileName = (case videoBuffer of Some b \<Rightarrow> JStr (ident @ ''.mp4'') | None \<Rightarrow> JNull);
          mp3FileName = (case musicBuffer of Some b \<Rightarrow> JStr (ident @ ''.mp3'') | None \<Rightarrow> JNull)
      in
     seq (case videoBuffer of
            Some b \<Rightarrow>
              (if truthy mp4FileName then
                 seq (do_upload w ''tiktok-downloads'' (ident @ ''.mp4'') ''video/mp4'' b)
                   (\<lambda>videoUploadError.
                     case videoUploadError of
                       Some m \<Rightarrow> throw (''Failed to upload video to storage: '' @ m)
                     | None \<Rightarrow> ret ())
               else ret ())
          | None \<Rightarrow> ret ()) (\<lambda>u1.
     seq (case musicBuffer of
            Some b \<Rightarrow>
              (if truthy mp3FileName then
                 seq (do_upload w ''tiktok-downloads'' (ident @ ''.mp3'') ''audio/mpeg'' b)
                   (\<lambda>musicUploadError.
                     case musicUploadError of
                       Some m \<Rightarrow> throw (''Failed to upload music to storage: '' @ m)
                     | None \<Rightarrow> ret ())
               else ret ())
          | None \<Rightarrow> ret ()) (\<lambda>u2.
     seq (mirror_thumbnail w (thumbnailUrl found) ident) (\<lambda>thumbnailPath.
     seq (do_insert w ''tiktok_downloads'' (JObj [
            (''id'', JStr ident),
            (''tiktok_url'', JStr tiktokvid_url),
            (''mp4_path'', mp4FileName),
            (''mp3_path'', mp3FileName),
            (''thumbnail_path'', thumbnailPath),
            (''title'', title found),
            (''author'', author found),
            (''thumbnail_url'', thumbnailUrl found)])) (\<lambda>dbError.
     seq (case dbError of
            Some m \<Rightarrow> emit (ConsoleError ''DB Error:'')
          | None \<Rightarrow> ret ()) (\<lambda>u3.
     seq (emit (IncrementStat ''total_success'')) (\<lambda>u4.
     seq (emit (LogApiRequest userIP ''GET'' ''/api/downloader/tiktokmp4downloader'' 200 realUA))
       (\<lambda>u5.
     case (if autoShow \<and> type = ''mp4'' then videoBuffer else None) of
       Some b \<Rightarrow>
         ret (NextResponse b 200 [
           (''Content-Type'', ''video/mp4''),
           (''Content-Disposition'', ''inline; filename="tiktok_'' @ ident @ ''.mp4"'')])
     | None \<Rightarrow>
         (if type = ''mp3'' then
            ret (PrettyJson (success_envelope [
              (''id'', JStr ident),
              (''tiktok_url'', JStr tiktokvid_url),
              (''title'', title found),
              (''author'', author found),
              (''thumbnail'', thumbnailUrl found),
              (''type'', JStr type),
              (''result_url'', JStr (''https://apis.visora.my.id/result/mp4tiktok/'' @ ident))])
              200)
          else
            seq (lift (getPublicUrl w ''tiktok-downloads'' mp4FileName)) (\<lambda>publicUrl.
            ret (PrettyJson (success_envelope [
              (''id'', JStr ident),
              (''tiktok_url'', JStr tiktokvid_url),
              (''title'', title found),
              (''author'', author found),
              (''thumbnail'', thumbnailUrl found),
              (''video_url'', opt_field publicUrl ''publicUrl'')])
              200)))))))))))))))\<close>

text \<open>
  The handler: the parameter checks, then the \<open>try\<close> block, whose every error ends in
  the 500 envelope with the error's message.
\<close>

definition tiktokmp4_GET :: "world \<Rightarrow> request \<Rightarrow> response step" where
  "tiktokmp4_GET w req =
     (let tiktokvid_url = param req ''tiktokvid_url'';
          autoShow = (param req ''auto_show'' \<noteq> Some ''false'');
          type = param req ''type''
      in case tiktokvid_url of
           None \<Rightarrow> ret (PrettyJson (error_envelope tiktokvid_url_required) 400)
         | Some url \<Rightarrow>
             if url = [] then ret (PrettyJson (error_envelope tiktokvid_url_required) 400)
             else (case type of
               None \<Rightarrow> ret (PrettyJson (error_envelope type_required) 400)
             | Some ty \<Rightarrow>
                 if ty = [] \<or> (ty \<noteq> ''mp3'' \<and> ty \<noteq> ''mp4'')
                 then ret (PrettyJson (error_envelope type_required) 400)
                 else
                   (let userIP = userIP_of req; realUA = realUA_of req chrome_ua in
                    seq (emit (IncrementStat ''total_hits'')) (\<lambda>u.
                    catch (tiktokmp4_try w url ty autoShow userIP realUA) (\<lambda>message.
                      seq (emit (ConsoleError ''TikTok Downloader API Error:'')) (\<lambda>u1.
                      seq (emit (IncrementStat ''total_errors'')) (\<lambda>u2.
                      seq (emit (LogApiRequest userIP ''GET''
                             ''/api/downloader/tiktokmp4downloader'' 500 realUA)) (\<lambda>u3.
                      ret (PrettyJson (error_envelope message) 500)))))))))"

section \<open>The TikTok audio route (tiktokvid2mp3/route.ts)\<close>

text \<open>Here the extractor is asked without \<open>&hd=1\<close> and counts only when it names music.\<close>

definition tryTikwm_music :: "world \<Rightarrow> string \<Rightarrow> string \<Rightarrow> json option step" where
  "tryTikwm_music w url ua =
     catch
       (seq (do_fetch w (TikwmGet url False ua)) (\<lambda>response.
          if \<not> ok response then ret None
          else
            seq (lift (json_body response)) (\<lambda>data.
            seq (read_prop data ''code'') (\<lambda>code.
              if code \<noteq> JNum 0 \<or> \<not> truthy (field data ''data'') then ret None
              else
                (let d = field data ''data'';
                     music = or_js (field d ''music'') (opt_field (field d ''music_info'') ''play'')
                 in if \<not> truthy music then ret None else ret (Some music))))))
       (\<lambda>e. ret None)"

definition tryCobalt_music_instance :: "world \<Rightarrow> string \<Rightarrow> string \<Rightarrow> json option step" where
  "tryCobalt_music_instance w url instance =
     catch
       (seq (do_fetch w (CobaltPost instance (JObj [
               (''url'', JStr url),
               (''downloadMode'', JStr ''audio''),
               (''audioFormat'', JStr ''mp3'')]))) (\<lambda>response.
          if \<not> ok response then ret None
          else
            seq (lift (json_body response)) (\<lambda>data.
            seq (read_prop data ''status'') (\<lambda>st.
              if st = JStr ''error'' then ret None
              else if truthy (field data ''url'') then ret (Some (field data ''url''))
              else ret None))))
       (\<lambda>e. ret None)"

fun tryCobalt_music_loop :: "world \<Rightarrow> string \<Rightarrow> string list \<Rightarrow> json option step" where
  "tryCobalt_music_loop w url [] = ret None"
| "tryCobalt_music_loop w url (instance # rest) =
     seq (tryCobalt_music_instance w url instance) (\<lambda>found.
       case found of
         Some u \<Rightarrow> ret (Some u)
       | None \<Rightarrow> tryCobalt_music_loop w url rest)"

definition tryCobalt_music :: "world \<Rightarrow> string \<Rightarrow> json option step" where
  "tryCobalt_music w url = tryCobalt_music_loop w url instances"

definition tiktokvid2mp3_try ::
  "world \<Rightarrow> string \<Rightarrow> bool \<Rightarrow> string \<Rightarrow> string \<Rightarrow> response step" where
  \<open>tiktokvid2mp3_try w tiktokvid_url instantAppearance userIP realUA =
     seq (tryTikwm_music w tiktokvid_url realUA) (\<lambda>first.
     seq (case first of
            Some m \<Rightarrow> ret (Some m)
          | None \<Rightarrow> tryCobalt_music w tiktokvid_url) (\<lambda>result.
     case result of
       None \<Rightarrow> throw ''All providers failed to get music URL''
     | Some music \<Rightarrow>
     seq (do_fetch w (UrlGet music (Some realUA))) (\<lambda>musicResponse.
     if \<not> ok musicResponse then throw ''Failed to fetch music file from provider''
     else
     seq (lift (array_buffer musicResponse)) (\<lambda>buf.
     (let ident = randomUUID w; fileName = ident @ ''.mp3'' in
     seq (do_upload w ''tiktok-mp3s'' fileName ''audio/mpeg'' buf) (\<lambda>uploadError.
     case uploadError of
       Some m \<Rightarrow> throw (''Failed to upload to storage: '' @ m)
     | None \<Rightarrow>
     seq (do_insert w ''tiktok_mp3s'' (JObj [
            (''id'', JStr ident),
            (''tiktok_url'', JStr tiktokvid_url),
            (''mp3_path'', JStr fileName)])) (\<lambda>dbError.
     seq (case dbError of
            Some m \<Rightarrow> emit (ConsoleError ''DB Error:'')
          | None \<Rightarrow> ret ()) (\<lambda>u3.
     seq (emit (IncrementStat ''total_success'')) (\<lambda>u4.
     seq (emit (LogApiRequest userIP ''GET'' ''/api/downloader/tiktokvid2mp3'' 200 realUA)) (\<lambda>u5.
     if instantAppearance then
       ret (NextResponse buf 200 [
         (''Content-Type'', ''audio/mpeg''),
         (''Content-Disposition'', ''inline; filename="tiktok_'' @ ident @ ''.mp3"'')])
     else
       ret (PrettyJson (success_envelope [
         (''id'', JStr ident),
         (''tiktok_url'', JStr tiktokvid_url),
         (''result_url'', JStr (''https://apis.visora.my.id/result/tiktokvid2mp3/'' @ ident))])
         200)))))))))))\<close>

definition tiktokvid2mp3_GET :: "world \<Rightarrow> request \<Rightarrow> response step" where
  "tiktokvid2mp3_GET w req =
     (let tiktokvid_url = param req ''tiktokvid_url'';
          instantAppearance = (param req ''instant-appearance'' = Some ''true'')
      in case tiktokvid_url of
           None \<Rightarrow> ret (PrettyJson (error_envelope tiktokvid_url_required) 400)
         | Some url \<Rightarrow>
             if url = [] then ret (PrettyJson (error_envelope tiktokvid_url_required) 400)
             else
               (let userIP = userIP_of req; realUA = realUA_of req chrome_ua in
                seq (emit (IncrementStat ''total_hits'')) (\<lambda>u.
                catch (tiktokvid2mp3_try w url instantAppearance userIP realUA) (\<lambda>message.
                  seq (emit (ConsoleError ''TikTok MP3 API Error:'')) (\<lambda>u1.
                  seq (emit (IncrementStat ''total_errors'')) (\<lambda>u2.
                  seq (emit (LogApiRequest userIP ''GET''
                         ''/api/downloader/tiktokvid2mp3'' 500 realUA)) (\<lambda>u3.
                  ret (PrettyJson (error_envelope message) 500))))))))"

section \<open>The YouTube route (yt/route.ts)\<close>

definition COBALT_INSTANCES :: "string list" where
  "COBALT_INSTANCES = [''https://dwnld.nichind.dev'', ''https://cobalt.nohello.net'']"

text \<open>
  One turn of the loop of \<open>downloadFromCobalt\<close>: \<open>Some (url, filename)\<close> is the
  \<open>return\<close>, \<open>None\<close> is \<open>continue\<close> or the end of the loop body.
\<close>

definition downloadFromCobalt_instance ::
  "world \<Rightarrow> string \<Rightarrow> string \<Rightarrow> string \<Rightarrow> (json \<times> json) option step" where
  "downloadFromCobalt_instance w youtubeUrl type instance =
     (let isAudio = (type = ''mp3'') in
      catch
        (seq (do_fetch w (CobaltPost instance (JObj [
                (''url'', JStr youtubeUrl),
                (''videoQuality'', JStr ''1080''),
                (''audioFormat'', JStr (if isAudio then ''mp3'' else ''best'')),
                (''downloadMode'', JStr (if isAudio then ''audio'' else ''auto'')),
                (''filenameStyle'', JStr ''basic'')]))) (\<lambda>response.
           if \<not> ok response then ret None
           else
             seq (lift (json_body response)) (\<lambda>data.
             seq (read_prop data ''status'') (\<lambda>st.
               if st = JStr ''error'' then ret None
               else if st = JStr ''tunnel'' \<or> st = JStr ''redirect'' \<or> st = JStr ''stream''
                 then ret (Some (field data ''url'', field data ''filename''))
               else if truthy (field data ''url'')
                 then ret (Some (field data ''url'', field data ''filename''))
               else ret None))))
        (\<lambda>e. seq (emit (ConsoleError (''Cobalt instance '' @ instance @ '' failed:'')))
                 (\<lambda>u. ret None)))"

definition unavailable :: string where
  "unavailable = ''YouTube download tidak tersedia saat ini. Silakan coba lagi nanti.''"

fun downloadFromCobalt_loop ::
  "world \<Rightarrow> string \<Rightarrow> string \<Rightarrow> string list \<Rightarrow> (json \<times> json) step" where
  "downloadFromCobalt_loop w youtubeUrl type [] = throw unavailable"
| "downloadFromCobalt_loop w youtubeUrl type (instance # rest) =
     seq (downloadFromCobalt_instance w youtubeUrl type instance) (\<lambda>found.
       case found of
         Some r \<Rightarrow> ret r
       | None \<Rightarrow> downloadFromCobalt_loop w youtubeUrl type rest)"

definition downloadFromCobalt :: "world \<Rightarrow> string \<Rightarrow> string \<Rightarrow> (json \<times> json) step" where
  "downloadFromCobalt w youtubeUrl type =
     downloadFromCobalt_loop w youtubeUrl type COBALT_INSTANCES"

text \<open>The descriptive triple \<open>{ title, author, thumbnail }\<close>.\<close>

type_synonym video_info = "json \<times> json \<times> string"

definition thumbnail_of :: "string \<Rightarrow> string" where
  "thumbnail_of videoId = ''https://img.youtube.com/vi/'' @ videoId @ ''/maxresdefault.jpg''"

definition placeholder_info :: "string \<Rightarrow> video_info" where
  "placeholder_info videoId = (JStr ''YouTube Video'', JStr ''Unknown'', thumbnail_of videoId)"

definition getVideoInfo :: "world \<Rightarrow> string \<Rightarrow> video_info step" where
  "getVideoInfo w youtubeUrl =
     (case extractVideoId youtubeUrl of
        None \<Rightarrow> throw ''Invalid YouTube URL''
      | Some videoId \<Rightarrow>
          if videoId = [] then throw ''Invalid YouTube URL''
          else
            seq (catch
                   (seq (do_fetch w (OembedGet videoId)) (\<lambda>response.
                      if ok response then
                        seq (lift (json_body response)) (\<lambda>data.
                        seq (read_prop data ''title'') (\<lambda>t.
                          ret (Some (or_js t (JStr ''YouTube Video''),
                                     or_js (field data ''author_name'') (JStr ''Unknown''),
                                     thumbnail_of videoId))))
                      else ret None))
                   (\<lambda>e. seq (emit (ConsoleError ''Failed to get video info:''))
                            (\<lambda>u. ret None)))
              (\<lambda>answered.
                 case answered of
                   Some info \<Rightarrow> ret info
                 | None \<Rightarrow> ret (placeholder_info videoId)))"

text \<open>
  \<open>Promise.all\<close> of two steps: both run whatever the other does, and the result is the
  pair, or the error of one that threw. The model puts the events of the first before
  those of the second and prefers the error of the first.
\<close>

definition promise_all :: "'a step \<Rightarrow> 'b step \<Rightarrow> ('a \<times> 'b) step" where
  "promise_all a b =
     (case (a, b) of
        ((Throws e, evs), (r, evs')) \<Rightarrow> (Throws e, evs @ evs')
      | ((Returns x, evs), (Throws e, evs')) \<Rightarrow> (Throws e, evs @ evs')
      | ((Returns x, evs), (Returns y, evs')) \<Rightarrow> (Returns (x, y), evs @ evs'))"

text \<open>Decimal digits of a number, for the status in an error message.\<close>

definition digit :: "nat \<Rightarrow> char" where
  "digit d = (if d = 0 then CHR ''0'' else if d = 1 then CHR ''1'' else if d = 2 then CHR ''2''
     else if d = 3 then CHR ''3'' else if d = 4 then CHR ''4'' else if d = 5 then CHR ''5''
     else if d = 6 then CHR ''6'' else if d = 7 then CHR ''7'' else if d = 8 then CHR ''8''
     else CHR ''9'')"

fun decimal :: "nat \<Rightarrow> string" where
  "decimal n = (if n < 10 then [digit n] else decimal (n div 10) @ [digit (n mod 10)])"

definition youtube_url_required :: string where
  "youtube_url_required = ''Parameter 'youtube_url' is required''"

definition yt_try :: "world \<Rightarrow> string \<Rightarrow> string \<Rightarrow> string \<Rightarrow> string \<Rightarrow> response step" where
  \<open>yt_try w youtubeUrl type userIP realUA =
     seq (promise_all (downloadFromCobalt w youtubeUrl type) (getVideoInfo w youtubeUrl))
       (\<lambda>(downloadResult, videoInfo).
     seq (do_fetch w (UrlGet (fst downloadResult) (Some realUA))) (\<lambda>mediaResponse.
     if \<not> ok mediaResponse
       then throw (''Failed to fetch media: '' @ decimal (status mediaResponse))
     else
     seq (lift (array_buffer mediaResponse)) (\<lambda>buf.
     (let ident = randomUUID w;
          ext = (if type = ''mp3'' then ''mp3'' else ''mp4'');
          fileName = ident @ ''.'' @ ext;
          contentType = (if type = ''mp3'' then ''audio/mpeg'' else ''video/mp4'')
      in
     seq (do_upload w ''yt-downloads'' fileName contentType buf) (\<lambda>uploadError.
     case uploadError of
       Some m \<Rightarrow> throw (''Failed to upload to storage: '' @ m)
     | None \<Rightarrow>
     seq (do_insert w ''yt_downloads'' (JObj [
            (''id'', JStr ident),
            (''youtube_url'', JStr youtubeUrl),
            (''title'', fst videoInfo),
            (''author'', fst (snd videoInfo)),
            (''thumbnail_url'', JStr (snd (snd videoInfo))),
            (''mp4_path'', if type = ''mp4'' then JStr fileName else JNull),
            (''mp3_path'', if type = ''mp3'' then JStr fileName else JNull),
            (''type'', JStr type)])) (\<lambda>dbError.
     case dbError of
       Some m \<Rightarrow> throw (''Failed to save metadata: '' @ m)
     | None \<Rightarrow>
     seq (emit (IncrementStat ''total_success'')) (\<lambda>u4.
     seq (emit (LogApiRequest userIP ''GET'' ''/api/downloader/yt'' 200 realUA)) (\<lambda>u5.
     if type = ''mp4'' then
       ret (NextResponse buf 200 [
         (''Content-Type'', contentType),
         (''Content-Disposition'', ''inline; filename="youtube_'' @ ident @ ''.'' @ ext @ ''"'')])
     else
       ret (PrettyJson (success_envelope [
         (''id'', JStr ident),
         (''youtube_url'', JStr youtubeUrl),
         (''title'', fst videoInfo),
         (''author'', fst (snd videoInfo)),
         (''thumbnail'', JStr (snd (snd videoInfo))),
         (''type'', JStr type),
         (''result_url'', JStr (''https://apis.visora.my.id/result/ytdownloader/'' @ ident))])
         200)))))))))\<close>

definition yt_GET :: "world \<Rightarrow> request \<Rightarrow> response step" where
  "yt_GET w req =
     (let youtubeUrl = param req ''youtube_url'';
          type = param req ''type''
      in case youtubeUrl of
           None \<Rightarrow> ret (PrettyJson (error_envelope youtube_url_required) 400)
         | Some url \<Rightarrow>
             if url = [] then ret (PrettyJson (error_envelope youtube_url_required) 400)
             else (case type of
               None \<Rightarrow> ret (PrettyJson (error_envelope type_required) 400)
             | Some ty \<Rightarrow>
                 if ty = [] \<or> (ty \<noteq> ''mp3'' \<and> ty \<noteq> ''mp4'')
                 then ret (PrettyJson (error_envelope type_required) 400)
                 else if absent (extractVideoId url)
                 then ret (PrettyJson (error_envelope ''Invalid YouTube URL'') 400)
                 else
                   (let userIP = userIP_of req; realUA = realUA_of req ''Mozilla/5.0'' in
                    seq (emit (IncrementStat ''total_hits'')) (\<lambda>u.
                    catch (yt_try w url ty userIP realUA) (\<lambda>message.
                      seq (emit (ConsoleError ''YouTube Downloader API Error:'')) (\<lambda>u1.
                      seq (emit (IncrementStat ''total_errors'')) (\<lambda>u2.
                      seq (emit (LogApiRequest userIP ''GET'' ''/api/downloader/yt'' 500 realUA))
                        (\<lambda>u3.
                      ret (PrettyJson (error_envelope message) 500)))))))))"

section \<open>The result lookup (result/ytdownloader/[id]/route.ts)\<close>

definition result_GET :: "world \<Rightarrow> string \<Rightarrow> response step" where
  "result_GET w ident =
     catch
       (seq (do_select w ''yt_downloads'' ident) (\<lambda>(meta, metaError).
          if truthy metaError \<or> \<not> truthy meta
            then ret (PrettyJson (error_envelope ''Download not found'') 404)
          else
            (let filePath = or_js (field meta ''mp3_path'') (field meta ''mp4_path'') in
             if \<not> truthy filePath
               then ret (PrettyJson (error_envelope ''File not found'') 404)
             else
               seq (lift (getPublicUrl w ''yt-downloads'' filePath)) (\<lambda>publicUrl.
               ret (PrettyJson (success_envelope [
                 (''id'', field meta ''id''),
                 (''youtube_url'', field meta ''youtube_url''),
                 (''title'', field meta ''title''),
                 (''author'', field meta ''author''),
                 (''thumbnail_url'', field meta ''thumbnail_url''),
                 (''type'', field meta ''type''),
                 (''mp3_url'', opt_field publicUrl ''publicUrl'')]) 200)))))
       (\<lambda>e. seq (emit (ConsoleError ''YT Result API Error:'')) (\<lambda>u.
              ret (PrettyJson (error_envelope ''Internal server error'') 500)))"

section \<open>The image route (the second handler in result/ytdownloader/[id]/route.ts)\<close>

text \<open>
  Only the parameter check is modelled. \<open>generate prompt userIP userAgent\<close> stands for the
  \<open>try\<close> block behind it (the image provider, the compositing library, the upload and the
  insert), which stays a parameter.
\<close>

definition prompt_required :: string where
  "prompt_required = ''Parameter 'prompt' is required''"

definition imagen_GET ::
  "(string \<Rightarrow> string \<Rightarrow> string \<Rightarrow> response step) \<Rightarrow> request \<Rightarrow> response step" where
  "imagen_GET generate req =
     (let prompt = param req ''prompt'';
          userIP = userIP_of req;
          userAgent = realUA_of req ''browser''
      in case prompt of
           None \<Rightarrow> ret (ErrorRedirect 400 prompt_required)
         | Some p \<Rightarrow>
             if p = [] then ret (ErrorRedirect 400 prompt_required)
             else seq (emit (IncrementStat ''total_requests'')) (\<lambda>u. generate p userIP userAgent))"

section \<open>Reading a run\<close>

text \<open>The storage writes among the events: an upload to a bucket, an insert of a row.\<close>

fun storage_write :: "event \<Rightarrow> bool" where
  "storage_write (Upload bucket path ctype buf) = True"
| "storage_write (Insert table row) = True"
| "storage_write e = False"

fun is_insert :: "event \<Rightarrow> bool" where
  "is_insert (Insert table row) = True"
| "is_insert e = False"

text \<open>The calls to a relay mirror among the events.\<close>

fun relay_call :: "event \<Rightarrow> bool" where
  "relay_call (Fetch (CobaltPost instance body)) = True"
| "relay_call e = False"

section \<open>Concrete requests and worlds\<close>

text \<open>A request with the given query parameters and headers.\<close>

definition mk_request :: "(string \<times> string) list \<Rightarrow> (string \<times> string) list \<Rightarrow> request" where
  "mk_request ps hs = \<lparr>param = map_of ps, header = map_of hs\<rparr>"

text \<open>A world in which no remote service can be reached.\<close>

definition offline :: world where
  "offline = \<lparr>
     fetch = (\<lambda>c. Throws ''fetch failed''),
     upload = (\<lambda>bucket path ctype buf. Throws ''fetch failed''),
     insert_row = (\<lambda>table row. Throws ''fetch failed''),
     select_single = (\<lambda>table ident. Throws ''fetch failed''),
     getPublicUrl = (\<lambda>bucket path. Returns (JObj [(''publicUrl'', JStr ''https://storage.example/x'')])),
     randomUUID = ''00000000-0000-4000-8000-000000000000''\<rparr>"

(*DEFS-END*)

section \<open>Video identifier extraction\<close>

lemma first_some_None: "first_some f xs = None \<longleftrightarrow> (\<forall>x\<in>set xs. f x = None)"
  by (induction xs) (auto split: option.splits)

lemma first_some_Some: "first_some f xs = Some y \<Longrightarrow> \<exists>x\<in>set xs. f x = Some y"
  by (induction xs) (auto split: option.splits)

lemma match_here_Some:
  "match_here p s = Some v \<longleftrightarrow> prefix (p @ v) s \<and> length v = 11 \<and> list_all idchar v"
proof
  assume "match_here p s = Some v"
  then have a: "prefix p s" and b: "v = take 11 (drop (length p) s)" and c: "length v = 11"
    and d: "list_all idchar v"
    by (auto simp: match_here_def split: if_splits)
  from a obtain r where r: "s = p @ r" by (auto simp: prefix_def)
  with b have "v = take 11 r" by simp
  then have "prefix v r" by (simp add: take_is_prefix)
  with r have "prefix (p @ v) s" by simp
  with c d show "prefix (p @ v) s \<and> length v = 11 \<and> list_all idchar v" by simp
next
  assume h: "prefix (p @ v) s \<and> length v = 11 \<and> list_all idchar v"
  then obtain r where r: "s = (p @ v) @ r" by (auto simp: prefix_def)
  from h have l: "length v = 11" by simp
  from r l have t: "take 11 (drop (length p) s) = v" by simp
  from r have pp: "prefix p s" by simp
  from h t pp l show "match_here p s = Some v" by (simp add: match_here_def)
qed

lemma all_le_Suc: "(\<forall>j\<le>Suc n. Q j) \<longleftrightarrow> Q 0 \<and> (\<forall>j\<le>n. Q (Suc j))"
proof
  assume a: "\<forall>j\<le>Suc n. Q j"
  show "Q 0 \<and> (\<forall>j\<le>n. Q (Suc j))" using a by simp
next
  assume b: "Q 0 \<and> (\<forall>j\<le>n. Q (Suc j))"
  show "\<forall>j\<le>Suc n. Q j"
  proof (intro allI impI)
    fix j assume "j \<le> Suc n"
    then show "Q j" using b by (cases j) auto
  qed
qed

lemma search_shapes_None:
  "search_shapes url = None \<longleftrightarrow> (\<forall>j\<le>length url. match_shapes (drop j url) = None)"
  by (induction url) (auto simp: all_le_Suc split: option.splits)

lemma search_shapes_Some:
  "search_shapes url = Some v \<longleftrightarrow>
     (\<exists>i\<le>length url. match_shapes (drop i url) = Some v \<and> (\<forall>j<i. match_shapes (drop j url) = None))"
proof (induction url)
  case Nil
  then show ?case by auto
next
  case (Cons c cs)
  show ?case
  proof (cases "match_shapes (c # cs)")
    case None
    have "(\<exists>i\<le>length (c # cs). match_shapes (drop i (c # cs)) = Some v \<and> (\<forall>j<i. match_shapes (drop j (c # cs)) = None))
       \<longleftrightarrow> (\<exists>i\<le>length cs. match_shapes (drop i cs) = Some v \<and> (\<forall>j<i. match_shapes (drop j cs) = None))"
      (is "?L \<longleftrightarrow> ?R")
    proof
      assume ?L
      then obtain i where i: "i \<le> length (c # cs)" "match_shapes (drop i (c # cs)) = Some v"
        "\<forall>j<i. match_shapes (drop j (c # cs)) = None" by blast
      with None obtain k where k: "i = Suc k" by (cases i) auto
      from i k have "k \<le> length cs" "match_shapes (drop k cs) = Some v" by auto
      moreover have "\<forall>j<k. match_shapes (drop j cs) = None"
      proof (intro allI impI)
        fix j assume "j < k"
        then have "Suc j < i" using k by simp
        with i(3) have "match_shapes (drop (Suc j) (c # cs)) = None" by blast
        then show "match_shapes (drop j cs) = None" by simp
      qed
      ultimately show ?R by blast
    next
      assume ?R
      then obtain k where k: "k \<le> length cs" "match_shapes (drop k cs) = Some v"
        "\<forall>j<k. match_shapes (drop j cs) = None" by blast
      have "\<forall>j<Suc k. match_shapes (drop j (c # cs)) = None"
      proof (intro allI impI)
        fix j assume j: "j < Suc k"
        show "match_shapes (drop j (c # cs)) = None"
        proof (cases j)
          case 0 with None show ?thesis by simp
        next
          case (Suc m) with j k(3) show ?thesis by simp
        qed
      qed
      with k(1,2) have "Suc k \<le> length (c # cs) \<and> match_shapes (drop (Suc k) (c # cs)) = Some v
         \<and> (\<forall>j<Suc k. match_shapes (drop j (c # cs)) = None)" by simp
      then show ?L by blast
    qed
    with None Cons show ?thesis by simp
  next
    case (Some u)
    have "(\<exists>i\<le>length (c # cs). match_shapes (drop i (c # cs)) = Some v \<and> (\<forall>j<i. match_shapes (drop j (c # cs)) = None))
       \<longleftrightarrow> u = v" (is "?L \<longleftrightarrow> _")
    proof
      assume ?L
      then obtain i where i: "match_shapes (drop i (c # cs)) = Some v"
        "\<forall>j<i. match_shapes (drop j (c # cs)) = None" by blast
      have "i = 0"
      proof (rule ccontr)
        assume "i \<noteq> 0" then have "0 < i" by simp
        with i(2) have "match_shapes (drop 0 (c # cs)) = None" by blast
        with Some show False by simp
      qed
      with i Some show "u = v" by simp
    next
      assume "u = v"
      with Some have "0 \<le> length (c # cs) \<and> match_shapes (drop 0 (c # cs)) = Some v \<and> (\<forall>j<0. match_shapes (drop j (c # cs)) = None)" by simp
      then show ?L by blast
    qed
    with Some show ?thesis by simp
  qed
qed

lemma match_shapes_Some:
  "match_shapes s = Some v \<Longrightarrow>
     (\<exists>p\<in>set url_shapes. prefix (p @ v) s) \<and> length v = 11 \<and> list_all idchar v"
  unfolding match_shapes_def
  by (drule first_some_Some) (auto simp: match_here_Some)

lemma match_shapes_complete:
  assumes "p \<in> set url_shapes" "prefix (p @ v) s" "length v = 11" "list_all idchar v"
  shows "match_shapes s \<noteq> None"
proof
  assume "match_shapes s = None"
  then have "\<forall>q\<in>set url_shapes. match_here q s = None"
    by (simp add: match_shapes_def first_some_None)
  with assms(1) have "match_here p s = None" by blast
  moreover from assms have "match_here p s = Some v" by (simp add: match_here_Some)
  ultimately show False by simp
qed

lemma extractVideoId_Some:
  "extractVideoId url = Some v \<longleftrightarrow>
     (\<exists>i\<le>length url. match_shapes (drop i url) = Some v
        \<and> (\<forall>j<i. match_shapes (drop j url) = None))
     \<or> ((\<forall>j\<le>length url. match_shapes (drop j url) = None)
        \<and> url = v \<and> length v = 11 \<and> list_all idchar v)"
proof (cases "search_shapes url")
  case None
  then have n: "\<forall>j\<le>length url. match_shapes (drop j url) = None"
    by (simp add: search_shapes_None)
  then have "\<not> (\<exists>i\<le>length url. match_shapes (drop i url) = Some v
        \<and> (\<forall>j<i. match_shapes (drop j url) = None))" by auto
  moreover have "extractVideoId url = bare_id url"
    using None by (simp add: extractVideoId_def patterns_def split: option.splits)
  ultimately show ?thesis using n by (auto simp: bare_id_def)
next
  case (Some u)
  then have "\<not> (\<forall>j\<le>length url. match_shapes (drop j url) = None)"
    using search_shapes_None [of url] by simp
  moreover have "extractVideoId url = Some u"
    using Some by (simp add: extractVideoId_def patterns_def)
  ultimately show ?thesis using Some search_shapes_Some [of url v] by auto
qed

lemma extractVideoId_None:
  "extractVideoId url = None \<longleftrightarrow>
     (\<forall>j\<le>length url. match_shapes (drop j url) = None)
     \<and> \<not> (length url = 11 \<and> list_all idchar url)"
proof (cases "search_shapes url")
  case None
  then have "extractVideoId url = bare_id url"
    by (simp add: extractVideoId_def patterns_def split: option.splits)
  with None show ?thesis by (auto simp: bare_id_def search_shapes_None)
next
  case (Some u)
  then have "extractVideoId url = Some u"
    by (simp add: extractVideoId_def patterns_def)
  moreover have "\<not> (\<forall>j\<le>length url. match_shapes (drop j url) = None)"
    using Some search_shapes_None [of url] by simp
  ultimately show ?thesis by simp
qed

lemma extractVideoId_short_link: "extractVideoId ''https://youtu.be/dQw4w9WgXcQ'' = Some ''dQw4w9WgXcQ''"
  by code_simp

lemma extractVideoId_watch: "extractVideoId ''https://www.youtube.com/watch?v=dQw4w9WgXcQ'' = Some ''dQw4w9WgXcQ''"
  by code_simp

lemma getVideoInfo_invalid:
  "extractVideoId url = None \<Longrightarrow> getVideoInfo w url = throw ''Invalid YouTube URL''"
  by (simp add: getVideoInfo_def)

lemma yt_GET_invalid:
  "extractVideoId url = None \<Longrightarrow> url \<noteq> [] \<Longrightarrow> param req ''youtube_url'' = Some url \<Longrightarrow>
   param req ''type'' = Some ty \<Longrightarrow> ty = ''mp3'' \<or> ty = ''mp4'' \<Longrightarrow>
   yt_GET w req = ret (PrettyJson (error_envelope ''Invalid YouTube URL'') 400)"
  by (auto simp: yt_GET_def absent_def)

text \<open>
  C4. Video identifier extraction is total: it answers with the capture of the first
  pattern of the ordered list that matches, or with \<open>None\<close>. The first pattern matches
  at the leftmost position where one of the URL shapes is followed by eleven identifier
  characters; the second matches an input that is exactly eleven identifier characters.
  The short link and the watch URL of \<open>dQw4w9WgXcQ\<close> both yield \<open>dQw4w9WgXcQ\<close>. On
  \<open>None\<close>, \<open>getVideoInfo\<close> throws "Invalid YouTube URL" and the route answers 400 with
  that message.
\<close>

theorem extractVideoId_first_match:
  "extractVideoId ''https://youtu.be/dQw4w9WgXcQ'' = Some ''dQw4w9WgXcQ''
   \<and> extractVideoId ''https://www.youtube.com/watch?v=dQw4w9WgXcQ'' = Some ''dQw4w9WgXcQ''
   \<and> (extractVideoId url = Some v \<longleftrightarrow>
        (\<exists>i\<le>length url. match_shapes (drop i url) = Some v
           \<and> (\<forall>j<i. match_shapes (drop j url) = None))
        \<or> ((\<forall>j\<le>length url. match_shapes (drop j url) = None)
           \<and> url = v \<and> length v = 11 \<and> list_all idchar v))
   \<and> (extractVideoId url = None \<longleftrightarrow>
        (\<forall>j\<le>length url. match_shapes (drop j url) = None)
        \<and> \<not> (length url = 11 \<and> list_all idchar url))
   \<and> (match_shapes s = Some v \<longrightarrow>
        (\<exists>p\<in>set url_shapes. prefix (p @ v) s) \<and> length v = 11 \<and> list_all idchar v)
   \<and> ((\<exists>p\<in>set url_shapes. prefix (p @ v) s) \<and> length v = 11 \<and> list_all idchar v \<longrightarrow>
        match_shapes s \<noteq> None)
   \<and> (extractVideoId url = None \<longrightarrow> getVideoInfo w url = throw ''Invalid YouTube URL'')
   \<and> (extractVideoId url = None \<and> url \<noteq> [] \<and> param req ''youtube_url'' = Some url
        \<and> param req ''type'' = Some ty \<and> (ty = ''mp3'' \<or> ty = ''mp4'') \<longrightarrow>
        yt_GET w req = ret (PrettyJson (error_envelope ''Invalid YouTube URL'') 400))"
  using extractVideoId_short_link extractVideoId_watch extractVideoId_Some [of url v] extractVideoId_None [of url]
    match_shapes_Some [of s v] match_shapes_complete [of _ v s]
    getVideoInfo_invalid [of url w] yt_GET_invalid [of url req ty w]
  by blast

theorem extractVideoId_first_match_witness:
  "extractVideoId ''abc'' = None
   \<and> getVideoInfo offline ''abc'' = throw ''Invalid YouTube URL''
   \<and> yt_GET offline (mk_request [(''youtube_url'', ''abc''), (''type'', ''mp3'')] [])
       = ret (PrettyJson (error_envelope ''Invalid YouTube URL'') 400)
   \<and> match_shapes ''youtu.be/dQw4w9WgXcQ?t=1'' = Some ''dQw4w9WgXcQ''
   \<and> (\<exists>p\<in>set url_shapes. prefix (p @ ''dQw4w9WgXcQ'') ''youtu.be/dQw4w9WgXcQ?t=1'')"
proof -
  have none: "extractVideoId ''abc'' = None"
    by code_simp
  have m: "match_shapes ''youtu.be/dQw4w9WgXcQ?t=1'' = Some ''dQw4w9WgXcQ''"
    by code_simp
  have r: "param (mk_request [(''youtube_url'', ''abc''), (''type'', ''mp3'')] []) ''youtube_url''
             = Some ''abc''
           \<and> param (mk_request [(''youtube_url'', ''abc''), (''type'', ''mp3'')] []) ''type''
             = Some ''mp3''"
    by (simp add: mk_request_def)
  show ?thesis
    using none m r
      extractVideoId_first_match [of "''abc''" "''dQw4w9WgXcQ''" "''youtu.be/dQw4w9WgXcQ?t=1''"
        offline "mk_request [(''youtube_url'', ''abc''), (''type'', ''mp3'')] []" "''mp3''"]
    by simp
qed

end
